theory Spec2Isabelle
  imports Complex_Main "HOL-Library.Multiset"
begin

section \<open>Python values, errors and containers\<close>

text \<open>
  The exceptions \<^verbatim>\<open>glove.py\<close> can raise, one constructor per raise site.
  The three \<^verbatim>\<open>ValueError\<close>s are kept apart: the one raised by the
  \<^verbatim>\<open>else\<close> branch of the constructor, the one Python raises when a tuple is unpacked
  into two names and does not have two elements, and the one raised by \<^verbatim>\<open>fit\<close>
  when no co-occurrence was counted.
\<close>

datatype error =
    ValueError_context_size
  | ValueError_unpack
  | ValueError_no_cooccurrences
  | KeyError
  | IndexError
  | RuntimeError_shape

text \<open>The values a caller can pass as \<^verbatim>\<open>context_size\<close>.\<close>

datatype pyval =
    PyInt int
  | PyBool bool
  | PyFloat real
  | PyStr string
  | PyNone
  | PyTuple "pyval list"
  | PyList "pyval list"

fun isinstance_tuple :: "pyval \<Rightarrow> bool" where
  "isinstance_tuple (PyTuple vs) = True"
| "isinstance_tuple v = False"

text \<open>\<^verbatim>\<open>bool\<close> is a subclass of \<^verbatim>\<open>int\<close> in Python.\<close>

fun isinstance_int :: "pyval \<Rightarrow> bool" where
  "isinstance_int (PyInt n) = True"
| "isinstance_int (PyBool b) = True"
| "isinstance_int v = False"

fun tuple_items :: "pyval \<Rightarrow> pyval list" where
  "tuple_items (PyTuple vs) = vs"
| "tuple_items v = []"

text \<open>\<^verbatim>\<open>a, b = t\<close>: the tuple must have exactly two elements.\<close>

fun unpack_two :: "pyval list \<Rightarrow> error + (pyval \<times> pyval)" where
  "unpack_two [a, b] = Inr (a, b)"
| "unpack_two vs = Inl ValueError_unpack"

text \<open>A token is a string; a region is a list of tokens.\<close>

type_synonym token = string

text \<open>
  The keys looked up in \<^verbatim>\<open>word_to_id\<close>: a token, or a pair of tokens (the key of
  a co-occurrence entry). A string never equals a tuple in Python.
\<close>

datatype key = KStr token | KTuple token token

text \<open>
  A dictionary in insertion order. \<open>dict_add k w d\<close> is \<^verbatim>\<open>d[k] += w\<close> on a
  \<^verbatim>\<open>defaultdict\<close> or a \<^verbatim>\<open>Counter\<close> (a missing key starts at zero and is
  appended), \<open>dict_set k v d\<close> is \<^verbatim>\<open>d[k] = v\<close>, \<open>dict_get d k\<close> is
  \<^verbatim>\<open>d[k]\<close> on a plain dictionary, which raises \<^verbatim>\<open>KeyError\<close> on a missing key.
\<close>

fun dict_add :: "'k \<Rightarrow> 'v::monoid_add \<Rightarrow> ('k \<times> 'v) list \<Rightarrow> ('k \<times> 'v) list" where
  "dict_add k w [] = [(k, 0 + w)]"
| "dict_add k w ((k', v) # d) =
     (if k' = k then (k', v + w) # d else (k', v) # dict_add k w d)"

fun dict_set :: "'k \<Rightarrow> 'v \<Rightarrow> ('k \<times> 'v) list \<Rightarrow> ('k \<times> 'v) list" where
  "dict_set k w [] = [(k, w)]"
| "dict_set k w ((k', v) # d) =
     (if k' = k then (k', w) # d else (k', v) # dict_set k w d)"

definition dict_contains :: "('k \<times> 'v) list \<Rightarrow> 'k \<Rightarrow> bool" where
  "dict_contains d k = (map_of d k \<noteq> None)"

definition dict_get :: "('k \<times> 'v) list \<Rightarrow> 'k \<Rightarrow> error + 'v" where
  "dict_get d k = (case map_of d k of None \<Rightarrow> Inl KeyError | Some v \<Rightarrow> Inr v)"

text \<open>The value of a key, a missing key counting as zero.\<close>

definition dict_val :: "('k \<times> 'v::zero) list \<Rightarrow> 'k \<Rightarrow> 'v" where
  "dict_val d k = (case map_of d k of None \<Rightarrow> 0 | Some v \<Rightarrow> v)"

definition dict_keys :: "('k \<times> 'v) list \<Rightarrow> 'k set" where
  "dict_keys d = fst ` set d"

text \<open>
  \<^verbatim>\<open>xs[a:b]\<close>: a negative bound counts from the end, both bounds are clamped to the
  list, and an empty range gives the empty list.
\<close>

definition py_slice :: "'a list \<Rightarrow> int \<Rightarrow> int \<Rightarrow> 'a list" where
  "py_slice xs a b =
     (let n = int (length xs);
          lo = (if a < 0 then max (a + n) 0 else min a n);
          hi = (if b < 0 then max (b + n) 0 else min b n)
      in take (nat (hi - lo)) (drop (nat lo) xs))"

section \<open>The window extractor\<close>

definition window :: "'a list \<Rightarrow> int \<Rightarrow> int \<Rightarrow> 'a list" where
  "window region start_index end_index =
     (let last_index = int (length region) + 1
      in py_slice region (max start_index 0) (min end_index last_index + 1))"

definition context_windows :: "'a list \<Rightarrow> int \<Rightarrow> int \<Rightarrow> ('a list \<times> 'a \<times> 'a list) list" where
  "context_windows region left_size right_size =
     map (\<lambda>(i, word).
            let start_index = int i - left_size;
                end_index = int i + right_size;
                left_context = window region start_index (int i - 1);
                right_context = window region (int i + 1) end_index
            in (left_context, word, right_context))
         (enumerate 0 region)"

section \<open>The model object\<close>

text \<open>
  The attributes of a \<^verbatim>\<open>GloVe\<close> object. The embedding tables and bias vectors
  have \<open>vocab_size\<close> rows and are filled at random by the constructor, so they are
  arguments here. \<open>words\<close>, \<open>word_to_id\<close> are not set before the first \<^verbatim>\<open>fit\<close>
  and \<open>coocurrence_matrix\<close> is \<^verbatim>\<open>None\<close>.
\<close>

record glove =
  embedding_size :: nat
  left_context :: int
  right_context :: int
  vocab_size :: nat
  min_occurrances :: int
  alpha :: real
  x_max :: real
  focal_embeddings :: "nat \<Rightarrow> real list"
  context_embeddings :: "nat \<Rightarrow> real list"
  focal_biases :: "nat \<Rightarrow> real"
  context_biases :: "nat \<Rightarrow> real"
  words :: "token list option"
  word_to_id :: "(key \<times> nat) list option"
  coocurrence_matrix :: "((nat \<times> nat) \<times> real) list option"

fun int_value :: "pyval \<Rightarrow> int" where
  "int_value (PyInt n) = n"
| "int_value (PyBool b) = (if b then 1 else 0)"
| "int_value v = 0"

text \<open>
  Lines 13 to 19 of the constructor: two separate \<^verbatim>\<open>if\<close> statements, the
  \<^verbatim>\<open>else\<close> belonging to the second. The first one assigns both sizes from a tuple
  (or fails to unpack it); the second one assigns both from an int, and raises for
  everything that is not an int.
\<close>

definition init_context_size :: "pyval \<Rightarrow> error + (int \<times> int)" where
  "init_context_size context_size =
     (case (if isinstance_tuple context_size
            then map_sum id Some (unpack_two (tuple_items context_size))
            else Inr None) of
        Inl e \<Rightarrow> Inl e
      | Inr assigned \<Rightarrow>
          if isinstance_int context_size
          then Inr (int_value context_size, int_value context_size)
          else Inl ValueError_context_size)"

definition GloVe_init ::
  "nat \<Rightarrow> pyval \<Rightarrow> nat \<Rightarrow> int \<Rightarrow> real \<Rightarrow> real \<Rightarrow>
   (nat \<Rightarrow> real list) \<Rightarrow> (nat \<Rightarrow> real list) \<Rightarrow> (nat \<Rightarrow> real) \<Rightarrow> (nat \<Rightarrow> real) \<Rightarrow>
   error + glove" where
  "GloVe_init emb_size context_size vsize min_occ xmax a fe ce fb cb =
     (case init_context_size context_size of
        Inl e \<Rightarrow> Inl e
      | Inr (l, r) \<Rightarrow>
          Inr \<lparr>embedding_size = emb_size, left_context = l, right_context = r,
               vocab_size = vsize, min_occurrances = min_occ, alpha = a, x_max = xmax,
               focal_embeddings = fe, context_embeddings = ce,
               focal_biases = fb, context_biases = cb,
               words = None, word_to_id = None, coocurrence_matrix = None\<rparr>)"

section \<open>Co-occurrence aggregation and vocabulary\<close>

text \<open>
  One inner loop of \<^verbatim>\<open>fit\<close>: for \<^verbatim>\<open>i, context_word in enumerate(ctx)\<close>, add
  \<^verbatim>\<open>1 / (i + 1)\<close> to the entry of \<^verbatim>\<open>(word, context_word)\<close>. Weights are the exact
  reals here; the same loops with the rounding of Python's floats are
  \<open>scan_cooccurrence_float\<close> below.
\<close>

definition add_context ::
  "token \<Rightarrow> token list \<Rightarrow> ((token \<times> token) \<times> real) list \<Rightarrow> ((token \<times> token) \<times> real) list" where
  "add_context word ctx d =
     fold (\<lambda>(i, context_word). dict_add (word, context_word) (1 / (real i + 1)))
          (enumerate 0 ctx) d"

text \<open>The body of the loop over the triples: the left context reversed, then the right one.\<close>

definition add_triple ::
  "token list \<times> token \<times> token list \<Rightarrow>
   ((token \<times> token) \<times> real) list \<Rightarrow> ((token \<times> token) \<times> real) list" where
  "add_triple t d =
     (case t of (left_ctx, word, right_ctx) \<Rightarrow>
        add_context word right_ctx (add_context word (rev left_ctx) d))"

text \<open>\<^verbatim>\<open>Counter.update(region)\<close>: one more for every element, in order.\<close>

definition counter_update :: "token list \<Rightarrow> (token \<times> int) list \<Rightarrow> (token \<times> int) list" where
  "counter_update region wc = fold (\<lambda>w. dict_add w 1) region wc"

text \<open>The body of the loop over the regions of the corpus.\<close>

definition scan_region ::
  "int \<Rightarrow> int \<Rightarrow> token list \<Rightarrow>
   (token \<times> int) list \<times> ((token \<times> token) \<times> real) list \<Rightarrow>
   (token \<times> int) list \<times> ((token \<times> token) \<times> real) list" where
  "scan_region left_size right_size region s =
     (case s of (word_counts, cooccurence_counts) \<Rightarrow>
        (counter_update region word_counts,
         fold add_triple (context_windows region left_size right_size) cooccurence_counts))"

definition scan_corpus ::
  "int \<Rightarrow> int \<Rightarrow> token list list \<Rightarrow> (token \<times> int) list \<times> ((token \<times> token) \<times> real) list" where
  "scan_corpus left_size right_size corpus =
     fold (scan_region left_size right_size) corpus ([], [])"

text \<open>
  \<^verbatim>\<open>Counter.most_common(n)\<close> is \<^verbatim>\<open>heapq.nlargest(n, items, key=count)\<close>, which is
  \<^verbatim>\<open>sorted(items, key=count, reverse=True)[:n]\<close>: a stable sort by descending
  count, so that equal counts stay in insertion order, cut after \<open>n\<close> entries.
\<close>

definition most_common :: "nat \<Rightarrow> ('k \<times> int) list \<Rightarrow> ('k \<times> int) list" where
  "most_common n d = take n (sort_key (\<lambda>p. - snd p) d)"

text \<open>Lines 63 and 64: the list comprehension over \<^verbatim>\<open>most_common(vocab_size)\<close>.\<close>

definition build_words :: "nat \<Rightarrow> int \<Rightarrow> (token \<times> int) list \<Rightarrow> token list" where
  "build_words vsize min_occ word_counts =
     map fst (filter (\<lambda>p. min_occ \<le> snd p) (most_common vsize word_counts))"

text \<open>Line 65: \<^verbatim>\<open>{word: i for i, word in enumerate(words)}\<close>.\<close>

definition build_word_to_id :: "token list \<Rightarrow> (key \<times> nat) list" where
  "build_word_to_id ws = fold (\<lambda>(i, word). dict_set (KStr word) i) (enumerate 0 ws) []"

text \<open>
  Lines 66 to 70: the dictionary comprehension over the items of
  \<^verbatim>\<open>cooccurence_counts\<close>. For an entry that passes the filter the key expression is
  \<^verbatim>\<open>(word_to_id[words[0]], word_to_id[words])\<close>: the second subscript is the pair
  \<^verbatim>\<open>words\<close> itself, not \<^verbatim>\<open>words[1]\<close>.
\<close>

fun build_matrix ::
  "(key \<times> nat) list \<Rightarrow> ((token \<times> token) \<times> real) list \<Rightarrow>
   ((nat \<times> nat) \<times> real) list \<Rightarrow> error + ((nat \<times> nat) \<times> real) list" where
  "build_matrix w2i [] acc = Inr acc"
| "build_matrix w2i ((ws, cnt) # rest) acc =
     (if dict_contains w2i (KStr (fst ws)) \<and> dict_contains w2i (KStr (snd ws))
      then (case dict_get w2i (KStr (fst ws)) of
              Inl e \<Rightarrow> Inl e
            | Inr a \<Rightarrow>
                (case dict_get w2i (KTuple (fst ws) (snd ws)) of
                   Inl e \<Rightarrow> Inl e
                 | Inr b \<Rightarrow> build_matrix w2i rest (dict_set (a, b) cnt acc)))
      else build_matrix w2i rest acc)"

text \<open>
  \<^verbatim>\<open>fit\<close>: the outcome (\<open>None\<close> when it returns, the exception otherwise) and
  the object as the call leaves it. An attribute assigned before an exception is raised
  stays assigned.
\<close>

definition fit :: "glove \<Rightarrow> token list list \<Rightarrow> error option \<times> glove" where
  "fit self corpus =
     (case scan_corpus (left_context self) (right_context self) corpus of
        (word_counts, cooccurence_counts) \<Rightarrow>
          if length cooccurence_counts = 0 then (Some ValueError_no_cooccurrences, self)
          else
            let ws = build_words (vocab_size self) (min_occurrances self) word_counts;
                self1 = self\<lparr>words := Some ws\<rparr>;
                w2i = build_word_to_id ws;
                self2 = self1\<lparr>word_to_id := Some w2i\<rparr>
            in (case build_matrix w2i cooccurence_counts [] of
                  Inl e \<Rightarrow> (Some e, self2)
                | Inr m \<Rightarrow> (None, self2\<lparr>coocurrence_matrix := Some m\<rparr>)))"

section \<open>The weighted loss\<close>

text \<open>
  The elements of a floating-point tensor: a finite value, the two infinities, or
  not-a-number. Finite values are exact reals: rounding, overflow and the sign of zero
  are not modelled. The operations follow IEEE 754, as \<^verbatim>\<open>torch\<close> does: none of
  them raises, whatever its operands.
\<close>

datatype tval = Fin real | PInf | NInf | NaN

text \<open>The infinity with the sign of \<open>s\<close>; not-a-number when \<open>s\<close> is zero.\<close>

definition inf_signed :: "real \<Rightarrow> tval" where
  "inf_signed s = (if s = 0 then NaN else if 0 < s then PInf else NInf)"

fun tadd :: "tval \<Rightarrow> tval \<Rightarrow> tval" where
  "tadd (Fin a) (Fin b) = Fin (a + b)"
| "tadd (Fin a) PInf = PInf"
| "tadd (Fin a) NInf = NInf"
| "tadd PInf (Fin b) = PInf"
| "tadd PInf PInf = PInf"
| "tadd NInf (Fin b) = NInf"
| "tadd NInf NInf = NInf"
| "tadd x y = NaN"

fun tmul :: "tval \<Rightarrow> tval \<Rightarrow> tval" where
  "tmul (Fin a) (Fin b) = Fin (a * b)"
| "tmul (Fin a) PInf = inf_signed a"
| "tmul (Fin a) NInf = inf_signed (- a)"
| "tmul PInf (Fin b) = inf_signed b"
| "tmul NInf (Fin b) = inf_signed (- b)"
| "tmul PInf PInf = PInf"
| "tmul PInf NInf = NInf"
| "tmul NInf PInf = NInf"
| "tmul NInf NInf = PInf"
| "tmul x y = NaN"

text \<open>\<^verbatim>\<open>tensor / x\<close> for a Python number \<open>x\<close>.\<close>

fun tdiv :: "tval \<Rightarrow> real \<Rightarrow> tval" where
  "tdiv (Fin a) x = (if x = 0 then inf_signed a else Fin (a / x))"
| "tdiv PInf x = (if x < 0 then NInf else PInf)"
| "tdiv NInf x = (if x < 0 then PInf else NInf)"
| "tdiv NaN x = NaN"

definition is_integer :: "real \<Rightarrow> bool" where
  "is_integer a = (a = of_int \<lfloor>a\<rfloor>)"

text \<open>
  \<^verbatim>\<open>torch.pow(tensor, a)\<close> for a Python number \<open>a\<close>: anything to the power zero
  is one; a negative base has a power only for an integer exponent.
\<close>

fun tpow :: "tval \<Rightarrow> real \<Rightarrow> tval" where
  "tpow (Fin x) a =
     (if a = 0 then Fin 1
      else if 0 < x then Fin (x powr a)
      else if x = 0 then (if 0 < a then Fin 0 else PInf)
      else if is_integer a
        then Fin (if even \<lfloor>a\<rfloor> then \<bar>x\<bar> powr a else - (\<bar>x\<bar> powr a))
      else NaN)"
| "tpow PInf a = (if a = 0 then Fin 1 else if 0 < a then PInf else Fin 0)"
| "tpow NInf a =
     (if a = 0 then Fin 1
      else if 0 < a then (if is_integer a \<and> odd \<lfloor>a\<rfloor> then NInf else PInf)
      else Fin 0)"
| "tpow NaN a = (if a = 0 then Fin 1 else NaN)"

text \<open>
  \<^verbatim>\<open>torch.log\<close>: minus infinity at zero, not-a-number below. (\<open>ln\<close> of HOL is
  total and even, so each case is written out.)
\<close>

fun tlog :: "tval \<Rightarrow> tval" where
  "tlog (Fin x) = (if 0 < x then Fin (ln x) else if x = 0 then NInf else NaN)"
| "tlog PInf = PInf"
| "tlog NInf = NaN"
| "tlog NaN = NaN"

text \<open>\<^verbatim>\<open>tensor > x\<close>: a comparison with not-a-number is false.\<close>

fun tgt :: "tval \<Rightarrow> real \<Rightarrow> bool" where
  "tgt (Fin a) x = (x < a)"
| "tgt PInf x = True"
| "tgt NInf x = False"
| "tgt NaN x = False"

fun is_finite :: "tval \<Rightarrow> bool" where
  "is_finite (Fin a) = True"
| "is_finite v = False"

text \<open>Lines 81 and 82, for one element of the batch.\<close>

definition weight_factor :: "real \<Rightarrow> real \<Rightarrow> tval \<Rightarrow> tval" where
  "weight_factor xmax a coocurrence_count =
     (let w = tpow (tdiv coocurrence_count xmax) a
      in if tgt w 1 then Fin 1 else w)"

text \<open>Line 84, for one row: \<^verbatim>\<open>torch.sum(focal_embed * context_embed, dim=1)\<close>.\<close>

definition embedding_product :: "real list \<Rightarrow> real list \<Rightarrow> real" where
  "embedding_product focal_embed context_embed =
     sum_list (map (\<lambda>(x, y). x * y) (zip focal_embed context_embed))"

text \<open>Lines 84 to 89, for one element of the batch.\<close>

definition single_loss :: "glove \<Rightarrow> nat \<times> nat \<times> tval \<Rightarrow> tval" where
  "single_loss self t =
     (case t of (focal, context, coocurrence_count) \<Rightarrow>
        let focal_embed = focal_embeddings self focal;
            context_embed = context_embeddings self context;
            focal_bias = focal_biases self focal;
            context_bias = context_biases self context;
            log_cooccurrence = tlog coocurrence_count;
            distance_expr =
              tpow (tadd (Fin (embedding_product focal_embed context_embed
                               + focal_bias + context_bias))
                         log_cooccurrence) 2
        in tmul (weight_factor (x_max self) (alpha self) coocurrence_count) distance_expr)"

text \<open>
  \<^verbatim>\<open>forward\<close> on three one-dimensional batches. An id that is not a row of the
  embedding table raises \<^verbatim>\<open>IndexError\<close>; batches of different lengths raise
  \<^verbatim>\<open>RuntimeError\<close> (broadcasting of a one-element batch is left out). No statement
  of \<^verbatim>\<open>forward\<close> looks at the sign of a count.
\<close>

definition forward :: "glove \<Rightarrow> nat list \<Rightarrow> nat list \<Rightarrow> tval list \<Rightarrow> error + tval" where
  "forward self focal_input context_input coocurrence_count =
     (if list_ex (\<lambda>i. vocab_size self \<le> i) focal_input then Inl IndexError
      else if list_ex (\<lambda>i. vocab_size self \<le> i) context_input then Inl IndexError
      else if length focal_input \<noteq> length context_input
              \<or> length focal_input \<noteq> length coocurrence_count then Inl RuntimeError_shape
      else Inr (foldl tadd (Fin 0)
                  (map (single_loss self)
                       (zip focal_input (zip context_input coocurrence_count)))))"

text \<open>A model with the default configuration, all parameters zero, for the examples.\<close>

definition example_model :: glove where
  "example_model =
     \<lparr>embedding_size = 2, left_context = 1, right_context = 1,
      vocab_size = 100000, min_occurrances = 1, alpha = 3 / 4, x_max = 100,
      focal_embeddings = (\<lambda>i. [0, 0]), context_embeddings = (\<lambda>i. [0, 0]),
      focal_biases = (\<lambda>i. 0), context_biases = (\<lambda>i. 0),
      words = None, word_to_id = None, coocurrence_matrix = None\<rparr>"

section \<open>The aggregation on floats\<close>

text \<open>
  Python's \<^verbatim>\<open>float\<close> is the IEEE 754 double: 53 significant bits, every operation
  rounded to the nearest double, a tie to the even one. \<open>round_double\<close> rounds a real
  in the normal range (overflow and subnormal numbers are left out): with
  \<open>2 ^ e \<le> \<bar>x\<bar> < 2 ^ (e + 1)\<close> the doubles near \<open>x\<close> are the multiples of
  \<open>2 ^ (e - 52)\<close>. \<open>bits n\<close> is the number of binary digits of \<open>n\<close>.
\<close>

fun bits :: "nat \<Rightarrow> nat" where
  "bits n = (if n = 0 then 0 else Suc (bits (n div 2)))"

declare bits.simps [simp del]

definition round_even :: "real \<Rightarrow> int" where
  "round_even q =
     (let f = \<lfloor>q\<rfloor>; d = q - of_int f
      in if d < 1 / 2 then f else if 1 / 2 < d then f + 1 else if even f then f else f + 1)"

text \<open>The exponent \<open>e\<close> of a positive real: \<open>2 ^ e \<le> x < 2 ^ (e + 1)\<close>.\<close>

definition exponent :: "real \<Rightarrow> int" where
  "exponent x =
     (if 1 \<le> x then int (bits (nat \<lfloor>x\<rfloor>)) - 1 else - int (bits (nat (\<lceil>1 / x\<rceil> - 1))))"

definition round_double :: "real \<Rightarrow> real" where
  "round_double x =
     (if x = 0 then 0
      else let e = exponent \<bar>x\<bar>;
               scale = (if e \<le> 52 then 2 ^ nat (52 - e) else 1 / 2 ^ nat (e - 52))
           in sgn x * of_int (round_even (\<bar>x\<bar> * scale)) / scale)"

text \<open>\<^verbatim>\<open>x + y\<close> and \<^verbatim>\<open>x / y\<close> on floats (\<open>y\<close> not zero).\<close>

definition float_add :: "real \<Rightarrow> real \<Rightarrow> real" where
  "float_add x y = round_double (x + y)"

definition float_div :: "real \<Rightarrow> real \<Rightarrow> real" where
  "float_div x y = round_double (x / y)"

text \<open>
  Lines 49 to 57 as Python computes them: \<^verbatim>\<open>defaultdict(float)\<close>, the weight
  \<^verbatim>\<open>1 / (i + 1)\<close> a rounded quotient, and \<^verbatim>\<open>+=\<close> a rounded sum. The definitions
  are those of \<open>dict_add\<close>, \<open>add_context\<close>, \<open>add_triple\<close> and of the second component
  of \<open>scan_corpus\<close>, with the two float operations in place of the exact ones.
\<close>

fun dict_add_float :: "'k \<Rightarrow> real \<Rightarrow> ('k \<times> real) list \<Rightarrow> ('k \<times> real) list" where
  "dict_add_float k w [] = [(k, float_add 0 w)]"
| "dict_add_float k w ((k', v) # d) =
     (if k' = k then (k', float_add v w) # d else (k', v) # dict_add_float k w d)"

definition add_context_float ::
  "token \<Rightarrow> token list \<Rightarrow> ((token \<times> token) \<times> real) list \<Rightarrow> ((token \<times> token) \<times> real) list" where
  "add_context_float word ctx d =
     fold (\<lambda>(i, context_word). dict_add_float (word, context_word) (float_div 1 (real i + 1)))
          (enumerate 0 ctx) d"

definition add_triple_float ::
  "token list \<times> token \<times> token list \<Rightarrow>
   ((token \<times> token) \<times> real) list \<Rightarrow> ((token \<times> token) \<times> real) list" where
  "add_triple_float t d =
     (case t of (left_ctx, word, right_ctx) \<Rightarrow>
        add_context_float word right_ctx (add_context_float word (rev left_ctx) d))"

definition scan_cooccurrence_float ::
  "int \<Rightarrow> int \<Rightarrow> token list list \<Rightarrow> ((token \<times> token) \<times> real) list" where
  "scan_cooccurrence_float left_size right_size corpus =
     fold (\<lambda>region. fold add_triple_float (context_windows region left_size right_size))
          corpus []"

section \<open>Additions as lists\<close>

text \<open>A list of additions to a dictionary, performed in order.\<close>

definition dict_add_all :: "('k \<times> 'v::monoid_add) list \<Rightarrow> ('k \<times> 'v) list \<Rightarrow> ('k \<times> 'v) list" where
  "dict_add_all kws d = fold (\<lambda>p. dict_add (fst p) (snd p)) kws d"

text \<open>
  The additions that the loops of \<^verbatim>\<open>fit\<close> perform, as lists: those of one context, of
  one triple and of one region. The lemmas below show that the loops perform exactly these.
\<close>

definition context_pairs :: "token \<Rightarrow> token list \<Rightarrow> ((token \<times> token) \<times> real) list" where
  "context_pairs word ctx = map (\<lambda>(i, context_word). ((word, context_word), 1 / (real i + 1))) (enumerate 0 ctx)"

definition triple_pairs :: "token list \<times> token \<times> token list \<Rightarrow> ((token \<times> token) \<times> real) list" where
  "triple_pairs t = (case t of (left_ctx, word, right_ctx) \<Rightarrow>
      context_pairs word (rev left_ctx) @ context_pairs word right_ctx)"

definition region_pairs :: "int \<Rightarrow> int \<Rightarrow> token list \<Rightarrow> ((token \<times> token) \<times> real) list" where
  "region_pairs L R region = concat (map triple_pairs (context_windows region L R))"

text \<open>What one region adds to the entry of the pair \<open>k\<close>.\<close>

definition region_weight :: "int \<Rightarrow> int \<Rightarrow> token list \<Rightarrow> token \<times> token \<Rightarrow> real" where
  "region_weight L R region k =
     sum_list (map (\<lambda>p. if fst p = k then snd p else 0) (region_pairs L R region))"

text \<open>An entry of the co-occurrence dictionary whose two tokens are both in the vocabulary.\<close>

definition in_vocabulary :: "token list \<Rightarrow> (token \<times> token) \<times> real \<Rightarrow> bool" where
  "in_vocabulary ws entry = (fst (fst entry) \<in> set ws \<and> snd (fst entry) \<in> set ws)"

section \<open>Properties of the window extractor\<close>


lemma slice_nth: "hi \<le> length xs \<Longrightarrow> take (hi - lo) (drop lo xs) = map ((!) xs) [lo..<hi]"
  by (rule nth_equalityI) auto

lemma py_slice_nonneg:
  assumes "0 \<le> a" and "0 \<le> b"
  shows "py_slice xs a b = map ((!) xs) [nat a..<nat (min b (int (length xs)))]"
proof (cases "a \<le> int (length xs)")
  case True
  have hi: "nat (min b (int (length xs))) \<le> length xs" by simp
  have "py_slice xs a b = take (nat (min b (int (length xs)) - a)) (drop (nat a) xs)"
    using assms True by (simp add: py_slice_def Let_def min_absorb1)
  also have "nat (min b (int (length xs)) - a) = nat (min b (int (length xs))) - nat a"
    using assms by (simp add: nat_diff_distrib')
  finally show ?thesis using slice_nth [OF hi] by simp
next
  case False
  then have "nat (min b (int (length xs))) \<le> nat a" by simp
  moreover have "py_slice xs a b = []"
    using assms False by (simp add: py_slice_def Let_def min_absorb2)
  ultimately show ?thesis by simp
qed

lemma window_left:
  assumes "i < length region"
  shows "window region (int i - L) (int i - 1) = map ((!) region) [nat (max (int i - L) 0)..<i]"
proof -
  have b: "min (int i - 1) (int (length region) + 1) + 1 = int i" using assms by simp
  have "window region (int i - L) (int i - 1) = py_slice region (max (int i - L) 0) (int i)"
    unfolding window_def Let_def b ..
  also have "\<dots> = map ((!) region) [nat (max (int i - L) 0)..<nat (min (int i) (int (length region)))]"
    by (rule py_slice_nonneg) simp_all
  finally show ?thesis using assms by (simp add: min_absorb1)
qed

lemma window_right:
  assumes "0 \<le> R" and "i < length region"
  shows "window region (int i + 1) (int i + R)
         = map ((!) region) [Suc i..<Suc (nat (min (int i + R) (int (length region) - 1)))]"
proof -
  let ?b = "min (int i + R) (int (length region) + 1) + 1"
  have a: "max (int i + 1) 0 = int i + 1" by simp
  have hi: "nat (min ?b (int (length region))) = Suc (nat (min (int i + R) (int (length region) - 1)))"
    using assms by linarith
  have "window region (int i + 1) (int i + R) = py_slice region (int i + 1) ?b"
    unfolding window_def Let_def a ..
  also have "\<dots> = map ((!) region) [nat (int i + 1)..<nat (min ?b (int (length region)))]"
    using assms by (intro py_slice_nonneg) simp_all
  also have "nat (int i + 1) = Suc i" by simp
  finally show ?thesis unfolding hi .
qed

text \<open>
  Claim C5. For a region of length \<open>n\<close>, window sizes \<open>L\<close> and \<open>R\<close> and a position
  \<open>i < n\<close>, the extractor yields one triple per position; the triple of position \<open>i\<close>
  has the token of \<open>i\<close> in the middle, the tokens at the indices \<open>max (i - L) 0\<close> to
  \<open>i - 1\<close> on the left, in the order of the region, and the tokens at the indices
  \<open>i + 1\<close> to \<open>min (i + R) (n - 1)\<close> on the right. Nothing is padded and nothing is
  raised: the windows are shorter at the ends of the region. The right size is a size,
  \<open>0 \<le> R\<close>; the left size may be any integer.
\<close>

theorem context_windows_contents:
  assumes "0 \<le> R" and "i < length region"
  shows "length (context_windows region L R) = length region \<and>
         context_windows region L R ! i =
           (map ((!) region) [nat (max (int i - L) 0)..<i],
            region ! i,
            map ((!) region) [Suc i..<Suc (nat (min (int i + R) (int (length region) - 1)))])"
  using assms
  by (simp add: context_windows_def nth_enumerate_eq window_left window_right Let_def)

theorem context_windows_contents_witness:
  "context_windows [''a'', ''b'', ''c''] 1 1 ! 1 = ([''a''], ''b'', [''c'']) \<and>
   context_windows [''a'', ''b'', ''c''] 1 1 ! 0 = ([], ''a'', [''b''])"
  using context_windows_contents [of 1 1 "[''a'', ''b'', ''c'']" 1]
        context_windows_contents [of 1 0 "[''a'', ''b'', ''c'']" 1]
  by (simp add: upt_rec)

text \<open>
  A negative right size is outside the claim: the stop index of the slice can then be
  negative, and Python counts it from the end of the region.
\<close>

lemma context_windows_negative_right:
  "context_windows [''a'', ''b'', ''c''] 1 (- 2) ! 0 = ([], ''a'', [''b''])"
  by (simp add: context_windows_def window_def py_slice_def)

section \<open>The constructor\<close>

lemma init_context_size_int: "init_context_size (PyInt n) = Inr (n, n)"
  by (simp add: init_context_size_def)

lemma init_context_size_ok_iff: "(\<exists>p. init_context_size v = Inr p) \<longleftrightarrow> isinstance_int v"
  by (cases v) (auto simp: init_context_size_def split: sum.splits)

lemma GloVe_init_int:
  "GloVe_init e (PyInt n) v m x a fe ce fb cb
   = Inr \<lparr>embedding_size = e, left_context = n, right_context = n,
          vocab_size = v, min_occurrances = m, alpha = a, x_max = x,
          focal_embeddings = fe, context_embeddings = ce,
          focal_biases = fb, context_biases = cb,
          words = None, word_to_id = None, coocurrence_matrix = None\<rparr>"
  by (simp add: GloVe_init_def init_context_size_int)

lemma GloVe_init_ok_iff:
  "(\<exists>g. GloVe_init e cs v m x a fe ce fb cb = Inr g) \<longleftrightarrow> isinstance_int cs"
proof (cases "init_context_size cs")
  case (Inl err)
  then show ?thesis using init_context_size_ok_iff [of cs] by (simp add: GloVe_init_def)
next
  case (Inr p)
  then show ?thesis using init_context_size_ok_iff [of cs]
    by (cases p) (simp add: GloVe_init_def)
qed

text \<open>
  Claim C2. A \<^verbatim>\<open>context_size\<close> that is one int is accepted, and so should a tuple of
  two ints be. The constructor raises for the tuple \<^verbatim>\<open>(2, 3)\<close>: after the first
  \<^verbatim>\<open>if\<close> has assigned both sizes, the second one is not an \<^verbatim>\<open>elif\<close>, and its
  \<^verbatim>\<open>else\<close> branch raises for everything that is not an int.
\<close>

theorem GloVe_init_tuple:
  "GloVe_init e (PyTuple [PyInt 2, PyInt 3]) v m x a fe ce fb cb = Inl ValueError_context_size"
  by (simp add: GloVe_init_def init_context_size_def)

section \<open>The failures of fit\<close>

lemma build_matrix_error: "build_matrix w2i cc acc = Inl e \<Longrightarrow> e = KeyError"
  by (induction w2i cc acc rule: build_matrix.induct)
     (auto simp: dict_get_def split: if_splits sum.splits option.splits)

lemma fit_empty_scan:
  "snd (scan_corpus (left_context self) (right_context self) corpus) = [] \<Longrightarrow>
   fit self corpus = (Some ValueError_no_cooccurrences, self)"
  by (cases "scan_corpus (left_context self) (right_context self) corpus") (simp add: fit_def)

lemma fit_nonempty_scan:
  "snd (scan_corpus (left_context self) (right_context self) corpus) \<noteq> [] \<Longrightarrow>
   fst (fit self corpus) = None \<or> fst (fit self corpus) = Some KeyError"
  by (cases "scan_corpus (left_context self) (right_context self) corpus")
     (auto simp: fit_def Let_def split: sum.splits dest: build_matrix_error)

text \<open>
  Claim C4. \<^verbatim>\<open>fit\<close> raises the error of the empty corpus exactly when the scan of the
  whole corpus has left no entry in the co-occurrence dictionary. A corpus of zero
  regions, which is also what an exhausted generator gives to the loop, raises it.
\<close>

theorem fit_empty_iff:
  "(fst (fit self corpus) = Some ValueError_no_cooccurrences
      \<longleftrightarrow> snd (scan_corpus (left_context self) (right_context self) corpus) = [])
   \<and> fst (fit self []) = Some ValueError_no_cooccurrences"
proof -
  have "fst (fit self []) = Some ValueError_no_cooccurrences"
    by (simp add: fit_empty_scan scan_corpus_def)
  moreover have "fst (fit self corpus) = Some ValueError_no_cooccurrences
      \<longleftrightarrow> snd (scan_corpus (left_context self) (right_context self) corpus) = []"
  proof (cases "snd (scan_corpus (left_context self) (right_context self) corpus) = []")
    case True
    then show ?thesis by (simp add: fit_empty_scan)
  next
    case False
    then show ?thesis using fit_nonempty_scan [of self corpus] by auto
  qed
  ultimately show ?thesis by simp
qed

text \<open>
  Claim C10. When \<^verbatim>\<open>fit\<close> raises the error of the empty corpus, the object is as it
  was before the call: the error is raised before the word list, the id dictionary or
  the matrix is assigned.
\<close>

theorem fit_empty_atomic:
  "fst (fit self corpus) = Some ValueError_no_cooccurrences \<Longrightarrow> snd (fit self corpus) = self"
proof (cases "snd (scan_corpus (left_context self) (right_context self) corpus) = []")
  case True
  then show ?thesis by (simp add: fit_empty_scan)
next
  case False
  assume "fst (fit self corpus) = Some ValueError_no_cooccurrences"
  then show ?thesis using fit_nonempty_scan [OF False] by auto
qed

theorem fit_empty_atomic_witness:
  "fst (fit example_model []) = Some ValueError_no_cooccurrences \<and>
   snd (fit example_model []) = example_model"
  using fit_empty_atomic [of example_model "[]"]
  by (simp add: fit_empty_scan scan_corpus_def)

section \<open>Properties of the aggregation\<close>

lemma dict_val_simps:
  "dict_val [] k' = 0"
  "dict_val ((k, v) # d) k' = (if k = k' then v else dict_val d k')"
  by (simp_all add: dict_val_def)

lemma dict_val_dict_add_same: "dict_val (dict_add k w d) k = dict_val d k + w"
  by (induction k w d rule: dict_add.induct) (simp_all add: dict_val_simps)

lemma dict_val_dict_add_other: "k \<noteq> k' \<Longrightarrow> dict_val (dict_add k w d) k' = dict_val d k'"
  by (induction k w d rule: dict_add.induct) (simp_all add: dict_val_simps)

lemma dict_val_dict_add:
  "dict_val (dict_add k w d) k' = dict_val d k' + (if k = k' then w else 0)"
  by (simp add: dict_val_dict_add_same dict_val_dict_add_other)

lemma dict_keys_simps:
  "dict_keys [] = {}" "dict_keys (p # d) = insert (fst p) (dict_keys d)"
  by (simp_all add: dict_keys_def)

lemma dict_keys_dict_add: "dict_keys (dict_add k w d) = insert k (dict_keys d)"
  by (induction k w d rule: dict_add.induct) (simp_all add: dict_keys_simps insert_commute)

lemma distinct_dict_add:
  "distinct (map fst d) \<Longrightarrow> distinct (map fst (dict_add k w d))"
proof (induction k w d rule: dict_add.induct)
  case (1 k w)
  show ?case by simp
next
  case (2 k w k' v d)
  have keys: "fst ` set (dict_add k w d) = insert k (fst ` set d)"
    using dict_keys_dict_add [of k w d] by (simp add: dict_keys_def)
  show ?case
  proof (cases "k' = k")
    case True
    with "2.prems" show ?thesis by simp
  next
    case False
    with 2 keys show ?thesis by simp
  qed
qed

lemma dict_val_add_all:
  "dict_val (dict_add_all kws d) k
   = dict_val d k + sum_list (map (\<lambda>p. if fst p = k then snd p else 0) kws)"
  unfolding dict_add_all_def
  by (induction kws arbitrary: d) (simp_all add: dict_val_dict_add add.assoc)

lemma dict_keys_add_all: "dict_keys (dict_add_all kws d) = dict_keys d \<union> fst ` set kws"
  unfolding dict_add_all_def
  by (induction kws arbitrary: d) (simp_all add: dict_keys_dict_add)

lemma distinct_add_all:
  "distinct (map fst d) \<Longrightarrow> distinct (map fst (dict_add_all kws d))"
  unfolding dict_add_all_def
  by (induction kws arbitrary: d) (simp_all add: distinct_dict_add)

lemma add_context_pairs: "add_context word ctx d = dict_add_all (context_pairs word ctx) d"
  by (simp add: add_context_def dict_add_all_def context_pairs_def fold_map comp_def case_prod_unfold)

lemma dict_add_all_append: "dict_add_all (xs @ ys) d = dict_add_all ys (dict_add_all xs d)"
  by (simp add: dict_add_all_def)

lemma add_triple_pairs: "add_triple t d = dict_add_all (triple_pairs t) d"
  by (cases t) (simp add: add_triple_def triple_pairs_def add_context_pairs dict_add_all_append)

lemma fold_add_triple: "fold add_triple ts d = dict_add_all (concat (map triple_pairs ts)) d"
  by (induction ts arbitrary: d) (simp_all add: add_triple_pairs dict_add_all_append, simp add: dict_add_all_def)




lemma scan_corpus_example:
  "snd (scan_corpus 0 2 [[''x'', ''y'', ''z'']])
   = [((''x'', ''y''), 1), ((''x'', ''z''), 1 / 2), ((''y'', ''z''), 1)]"
  by (simp add: scan_corpus_def scan_region_def context_windows_def window_def py_slice_def
      add_triple_def add_context_def)

lemma fold_scan_region:
  "fold (scan_region L R) corpus (wc, cc)
   = (fold counter_update corpus wc,
      fold (\<lambda>region. fold add_triple (context_windows region L R)) corpus cc)"
  by (induction corpus arbitrary: wc cc) (simp_all add: scan_region_def)

lemma fold_dict_add_all:
  "fold (\<lambda>x. dict_add_all (g x)) xs d = dict_add_all (concat (map g xs)) d"
  by (induction xs arbitrary: d) (simp_all add: dict_add_all_append, simp add: dict_add_all_def)

lemma counter_update_pairs:
  "counter_update region wc = dict_add_all (map (\<lambda>w. (w, 1)) region) wc"
  by (simp add: counter_update_def dict_add_all_def fold_map comp_def)

lemma snd_scan_corpus:
  "snd (scan_corpus L R corpus) = dict_add_all (concat (map (region_pairs L R) corpus)) []"
proof -
  have eq: "(\<lambda>region. fold add_triple (context_windows region L R))
        = (\<lambda>region. dict_add_all (region_pairs L R region))"
    by (rule ext)+ (simp add: fold_add_triple region_pairs_def)
  show ?thesis
    unfolding scan_corpus_def fold_scan_region eq by (simp add: fold_dict_add_all)
qed

lemma fst_scan_corpus:
  "fst (scan_corpus L R corpus)
   = dict_add_all (concat (map (map (\<lambda>w. (w, 1))) corpus)) []"
proof -
  have eq: "counter_update = (\<lambda>region. dict_add_all (map (\<lambda>w. (w, 1)) region))"
    by (rule ext)+ (simp add: counter_update_pairs)
  show ?thesis
    unfolding scan_corpus_def fold_scan_region eq by (simp add: fold_dict_add_all)
qed

lemma scan_corpus_distinct:
  "distinct (map fst (fst (scan_corpus L R corpus)))"
  "distinct (map fst (snd (scan_corpus L R corpus)))"
  by (simp_all add: fst_scan_corpus snd_scan_corpus distinct_add_all)

lemma sum_list_concat_map:
  fixes h :: "'b \<Rightarrow> 'c::comm_monoid_add"
  shows "sum_list (map h (concat (map g xs))) = sum_list (map (\<lambda>x. sum_list (map h (g x))) xs)"
  by (induction xs) simp_all

lemma cooccurrence_value:
  "dict_val (snd (scan_corpus L R corpus)) k = sum_list (map (\<lambda>region. region_weight L R region k) corpus)"
  by (simp add: snd_scan_corpus dict_val_add_all dict_val_simps sum_list_concat_map region_weight_def)

lemma word_count_value:
  "dict_val (fst (scan_corpus L R corpus)) w = sum_list (map (\<lambda>region. int (count_list region w)) corpus)"
proof -
  have "sum_list (map (\<lambda>p. if fst p = w then snd p else 0) (map (\<lambda>w. (w, 1::int)) region))
        = int (count_list region w)" for region
    by (induction region) simp_all
  then show ?thesis
    by (simp add: fst_scan_corpus dict_val_add_all dict_val_simps sum_list_concat_map)
qed

lemma cooccurrence_keys:
  "dict_keys (snd (scan_corpus L R corpus)) = (\<Union>region \<in> set corpus. fst ` set (region_pairs L R region))"
  by (simp add: snd_scan_corpus dict_keys_add_all dict_keys_simps image_UN)

lemma word_count_keys:
  "dict_keys (fst (scan_corpus L R corpus)) = (\<Union>region \<in> set corpus. set region)"
  by (simp add: fst_scan_corpus dict_keys_add_all dict_keys_simps image_UN image_image)

lemma sum_list_split:
  fixes f :: "'a \<Rightarrow> 'b::comm_monoid_add"
  assumes "mset xs = mset ys + mset zs"
  shows "sum_list (map f xs) = sum_list (map f ys) + sum_list (map f zs)"
proof -
  have "sum_list (map f xs) = sum_mset (image_mset f (mset xs))"
    by (simp add: sum_mset_sum_list [symmetric])
  also have "\<dots> = sum_mset (image_mset f (mset ys)) + sum_mset (image_mset f (mset zs))"
    by (simp add: assms)
  finally show ?thesis by (simp add: sum_mset_sum_list [symmetric])
qed

lemma set_split:
  assumes "mset xs = mset ys + mset zs"
  shows "set xs = set ys \<union> set zs"
proof -
  have "mset xs = mset (ys @ zs)" using assms by simp
  then have "set xs = set (ys @ zs)" by (rule mset_eq_setD)
  then show ?thesis by simp
qed

text \<open>
  In exact arithmetic every weight of a corpus is the sum of the weights of its regions,
  in any order and any batching; the word counts are integers and add exactly.
\<close>

lemma aggregation_split:
  assumes "mset corpus = mset A + mset B"
  shows "dict_val (snd (scan_corpus L R corpus)) k
           = dict_val (snd (scan_corpus L R A)) k + dict_val (snd (scan_corpus L R B)) k
       \<and> dict_keys (snd (scan_corpus L R corpus))
           = dict_keys (snd (scan_corpus L R A)) \<union> dict_keys (snd (scan_corpus L R B))
       \<and> dict_val (fst (scan_corpus L R corpus)) w
           = dict_val (fst (scan_corpus L R A)) w + dict_val (fst (scan_corpus L R B)) w
       \<and> dict_keys (fst (scan_corpus L R corpus))
           = dict_keys (fst (scan_corpus L R A)) \<union> dict_keys (fst (scan_corpus L R B))"
  by (simp add: cooccurrence_value word_count_value cooccurrence_keys word_count_keys
      sum_list_split [OF assms] set_split [OF assms])

section \<open>The aggregation on floats and the order of the corpus\<close>

lemma bits_numeral [simp]:
  "bits 0 = 0" "bits (Suc 0) = 1" "bits (numeral k) = Suc (bits (numeral k div 2))"
  by (simp_all add: bits.simps [of 0] bits.simps [of "Suc 0"] bits.simps [of "numeral k"])

lemma float_div_1_3: "float_div 1 3 = 6004799503160661 / 18014398509481984"
  by (simp add: float_div_def round_double_def exponent_def round_even_def Let_def)

lemma float_add_0_1: "float_add 0 1 = 1"
  by (simp add: float_add_def round_double_def exponent_def round_even_def Let_def)

lemma float_add_1_third: "float_add 1 (6004799503160661 / 18014398509481984) = 6004799503160661 / 4503599627370496"
  by (simp add: float_add_def round_double_def exponent_def round_even_def Let_def)


lemma float_div_1_2: "float_div 1 2 = 1 / 2"
  by (simp add: float_div_def round_double_def exponent_def round_even_def Let_def)

lemma float_div_1_1: "float_div 1 1 = 1"
  by (simp add: float_div_def round_double_def exponent_def round_even_def Let_def)

lemma float_add_1_1: "float_add 1 1 = 2"
  by (simp add: float_add_def round_double_def exponent_def round_even_def Let_def)

lemma float_add_2_third: "float_add 2 (6004799503160661 / 18014398509481984) = 5254199565265579 / 2251799813685248"
  by (simp add: float_add_def round_double_def exponent_def round_even_def Let_def)

lemma float_add_whole_half: "float_add (5254199565265579 / 2251799813685248) (1 / 2) = 6380099472108203 / 2251799813685248"
  by (simp add: float_add_def round_double_def exponent_def round_even_def Let_def)

lemma float_add_part_half: "float_add (6004799503160661 / 4503599627370496) (1 / 2) = 8256599316845909 / 4503599627370496"
  by (simp add: float_add_def round_double_def exponent_def round_even_def Let_def)

lemma float_add_parts: "float_add 1 (8256599316845909 / 4503599627370496) = 3190049736054101 / 1125899906842624"
  by (simp add: float_add_def round_double_def exponent_def round_even_def Let_def)

lemma float_add_0_half: "float_add 0 (1 / 2) = 1 / 2"
  by (simp add: float_add_def round_double_def exponent_def round_even_def Let_def)

lemma float_add_half_1: "float_add (1 / 2) 1 = 3 / 2"
  by (simp add: float_add_def round_double_def exponent_def round_even_def Let_def)

lemmas float_steps = float_div_1_3 float_add_0_1 float_add_1_third float_div_1_2 float_div_1_1 float_add_1_1 float_add_2_third float_add_whole_half float_add_part_half float_add_parts float_add_0_half float_add_half_1

lemma windows_aa: "context_windows [''a'', ''a''] 0 3 = [([], ''a'', [''a'']), ([], ''a'', [])]"
  by (simp add: context_windows_def window_def py_slice_def)

lemma windows_aaba:
  "context_windows [''a'', ''a'', ''b'', ''a''] 0 3
   = [([], ''a'', [''a'', ''b'', ''a'']), ([], ''a'', [''b'', ''a'']), ([], ''b'', [''a'']),
      ([], ''a'', [])]"
  by (simp add: context_windows_def window_def py_slice_def)

lemma scan_float_first: "scan_cooccurrence_float 0 3 [[''a'', ''a'']] = [((''a'', ''a''), 1)]"
  by (simp add: scan_cooccurrence_float_def windows_aa add_triple_float_def add_context_float_def
      float_steps)

lemma scan_float_second:
  "scan_cooccurrence_float 0 3 [[''a'', ''a'', ''b'', ''a'']]
   = [((''a'', ''a''), 8256599316845909 / 4503599627370496), ((''a'', ''b''), 3 / 2),
      ((''b'', ''a''), 1)]"
  by (simp add: scan_cooccurrence_float_def windows_aaba add_triple_float_def
      add_context_float_def float_steps)

lemma scan_float_both:
  "scan_cooccurrence_float 0 3 [[''a'', ''a''], [''a'', ''a'', ''b'', ''a'']]
   = [((''a'', ''a''), 6380099472108203 / 2251799813685248), ((''a'', ''b''), 3 / 2),
      ((''b'', ''a''), 1)]"
  by (simp add: scan_cooccurrence_float_def windows_aa windows_aaba add_triple_float_def
      add_context_float_def float_steps)

lemma keys_dict_add: "map fst (dict_add k w d) = (if k \<in> set (map fst d) then map fst d else map fst d @ [k])"
  by (induction k w d rule: dict_add.induct) auto

lemma keys_dict_add_float:
  "map fst (dict_add_float k w d) = (if k \<in> set (map fst d) then map fst d else map fst d @ [k])"
  by (induction k w d rule: dict_add_float.induct) auto

lemma keys_add_context:
  "map fst d = map fst d' \<Longrightarrow>
   map fst (fold (\<lambda>(i, c). dict_add_float (word, c) (f i)) ps d)
   = map fst (fold (\<lambda>(i, c). dict_add (word, c) (g i)) ps d')"
proof (induction ps arbitrary: d d')
  case Nil
  then show ?case by simp
next
  case (Cons p ps)
  obtain i c where p: "p = (i, c)" by (cases p)
  have "map fst (dict_add_float (word, c) (f i) d) = map fst (dict_add (word, c) (g i) d')"
    by (simp only: keys_dict_add keys_dict_add_float Cons.prems)
  then show ?case unfolding p by (simp add: Cons.IH)
qed

lemma keys_add_context_float:
  "map fst d = map fst d' \<Longrightarrow>
   map fst (add_context_float word ctx d) = map fst (add_context word ctx d')"
  unfolding add_context_float_def add_context_def by (rule keys_add_context)

lemma keys_add_triple_float:
  "map fst d = map fst d' \<Longrightarrow> map fst (add_triple_float t d) = map fst (add_triple t d')"
  by (cases t) (simp add: add_triple_float_def add_triple_def keys_add_context_float)

lemma keys_fold_add_triple_float:
  "map fst d = map fst d' \<Longrightarrow>
   map fst (fold add_triple_float ts d) = map fst (fold add_triple ts d')"
  by (induction ts arbitrary: d d') (simp_all add: keys_add_triple_float)

lemma keys_fold_regions_float:
  "map fst d = map fst d' \<Longrightarrow>
   map fst (fold (\<lambda>region. fold add_triple_float (context_windows region L R)) corpus d)
   = map fst (fold (\<lambda>region. fold add_triple (context_windows region L R)) corpus d')"
  by (induction corpus arbitrary: d d') (simp_all add: keys_fold_add_triple_float)

lemma scan_cooccurrence_float_keys:
  "map fst (scan_cooccurrence_float L R corpus) = map fst (snd (scan_corpus L R corpus))"
  by (simp add: scan_cooccurrence_float_def scan_corpus_def fold_scan_region
      keys_fold_regions_float)

lemma dict_keys_float: "dict_keys (scan_cooccurrence_float L R corpus) = dict_keys (snd (scan_corpus L R corpus))"
proof -
  have "set (map fst (scan_cooccurrence_float L R corpus)) = set (map fst (snd (scan_corpus L R corpus)))"
    by (simp only: scan_cooccurrence_float_keys)
  then show ?thesis by (simp add: dict_keys_def)
qed

text \<open>
  Claim C9, as the code has it. When the regions of a corpus are split in any way into
  two corpora \<open>A\<close> and \<open>B\<close>: every word count of the whole corpus is the sum of the
  counts of \<open>A\<close> and of \<open>B\<close> (a missing key counting as zero) and the counted words are
  those of either; the co-occurrence dictionary that Python builds has exactly the keys
  of the dictionaries of \<open>A\<close> and of \<open>B\<close>, the keys of the exact aggregation in the same
  order; and the exact weights, the sums of the contributions \<open>1 / (k + 1)\<close>, add key
  by key. The float weights themselves are left out: they are these sums rounded at
  each addition, in the order of the corpus.
\<close>

theorem aggregation_order_independence:
  assumes "mset corpus = mset A + mset B"
  shows "dict_val (fst (scan_corpus L R corpus)) w
           = dict_val (fst (scan_corpus L R A)) w + dict_val (fst (scan_corpus L R B)) w
       \<and> dict_keys (fst (scan_corpus L R corpus))
           = dict_keys (fst (scan_corpus L R A)) \<union> dict_keys (fst (scan_corpus L R B))
       \<and> dict_keys (scan_cooccurrence_float L R corpus)
           = dict_keys (scan_cooccurrence_float L R A) \<union> dict_keys (scan_cooccurrence_float L R B)
       \<and> map fst (scan_cooccurrence_float L R corpus) = map fst (snd (scan_corpus L R corpus))
       \<and> dict_val (snd (scan_corpus L R corpus)) k
           = dict_val (snd (scan_corpus L R A)) k + dict_val (snd (scan_corpus L R B)) k"
  using aggregation_split [OF assms, of L R k w]
  by (simp add: dict_keys_float scan_cooccurrence_float_keys)

theorem aggregation_order_independence_witness:
  "mset [[''a'', ''a''], [''a'', ''a'', ''b'', ''a'']]
     = mset [[''a'', ''a'', ''b'', ''a'']] + mset [[''a'', ''a'']]
   \<and> dict_keys (scan_cooccurrence_float 0 3 [[''a'', ''a''], [''a'', ''a'', ''b'', ''a'']])
     = dict_keys (scan_cooccurrence_float 0 3 [[''a'', ''a'', ''b'', ''a'']])
       \<union> dict_keys (scan_cooccurrence_float 0 3 [[''a'', ''a'']])
   \<and> dict_val (fst (scan_corpus 0 3 [[''a'', ''a''], [''a'', ''a'', ''b'', ''a'']])) ''a''
     = dict_val (fst (scan_corpus 0 3 [[''a'', ''a'', ''b'', ''a'']])) ''a''
       + dict_val (fst (scan_corpus 0 3 [[''a'', ''a'']])) ''a''"
proof -
  have m: "mset [[''a'', ''a''], [''a'', ''a'', ''b'', ''a'']]
     = mset [[''a'', ''a'', ''b'', ''a'']] + mset [[''a'', ''a'']]"
    by simp
  show ?thesis
    using m aggregation_order_independence [OF m, of 0 3 "''a''" "(''a'', ''a'')"] by simp
qed

text \<open>
  The float weights do depend on the batching. With left size 0 and right size 3, the
  corpus \<^verbatim>\<open>[["a","a"], ["a","a","b","a"]]\<close> gives the pair \<^verbatim>\<open>(a, a)\<close> the weight
  \<open>((1 + 1) + 1/3) + 1/2\<close>, rounded at each step, which is the double
  2.8333333333333335; the two regions alone give 1 and \<open>(1 + 1/3) + 1/2\<close>, the double
  1.8333333333333333, and their float sum is the double 2.833333333333333.
\<close>

theorem float_aggregation_split_differs:
  "scan_cooccurrence_float 0 3 [[''a'', ''a''], [''a'', ''a'', ''b'', ''a'']]
     = [((''a'', ''a''), 6380099472108203 / 2251799813685248), ((''a'', ''b''), 3 / 2),
        ((''b'', ''a''), 1)]
   \<and> scan_cooccurrence_float 0 3 [[''a'', ''a'']] = [((''a'', ''a''), 1)]
   \<and> scan_cooccurrence_float 0 3 [[''a'', ''a'', ''b'', ''a'']]
     = [((''a'', ''a''), 8256599316845909 / 4503599627370496), ((''a'', ''b''), 3 / 2),
        ((''b'', ''a''), 1)]
   \<and> float_add 1 (8256599316845909 / 4503599627370496) = 3190049736054101 / 1125899906842624
   \<and> float_add (dict_val (scan_cooccurrence_float 0 3 [[''a'', ''a'']]) (''a'', ''a''))
                (dict_val (scan_cooccurrence_float 0 3 [[''a'', ''a'', ''b'', ''a'']]) (''a'', ''a''))
     \<noteq> dict_val (scan_cooccurrence_float 0 3 [[''a'', ''a''], [''a'', ''a'', ''b'', ''a'']])
          (''a'', ''a'')"
  by (simp add: scan_float_first scan_float_second scan_float_both float_add_parts dict_val_simps)

section \<open>Properties of the vocabulary\<close>

lemma dict_keys_dict_set: "dict_keys (dict_set k v d) = insert k (dict_keys d)"
  by (induction k v d rule: dict_set.induct) (simp_all add: dict_keys_simps insert_commute)

lemma dict_set_fresh: "k \<notin> dict_keys d \<Longrightarrow> dict_set k v d = d @ [(k, v)]"
  by (induction k v d rule: dict_set.induct) (auto simp: dict_keys_simps)

lemma fold_dict_set_fresh:
  "distinct (map fst kvs) \<Longrightarrow> dict_keys d \<inter> fst ` set kvs = {} \<Longrightarrow>
   fold (\<lambda>p. dict_set (fst p) (snd p)) kvs d = d @ kvs"
proof (induction kvs arbitrary: d)
  case Nil
  show ?case by simp
next
  case (Cons p kvs)
  have fresh: "fst p \<notin> dict_keys d" using Cons.prems(2) by auto
  have "dict_keys (d @ [p]) \<inter> fst ` set kvs = {}"
    using Cons.prems by (auto simp: dict_keys_def)
  moreover have "distinct (map fst kvs)" using Cons.prems(1) by simp
  ultimately have "fold (\<lambda>p. dict_set (fst p) (snd p)) kvs (d @ [p]) = (d @ [p]) @ kvs"
    by (rule Cons.IH [rotated])
  then show ?case using dict_set_fresh [OF fresh, of "snd p"] by simp
qed

lemma build_word_to_id_keys: "dict_keys (build_word_to_id ws) = KStr ` set ws"
proof -
  have "dict_keys (fold (\<lambda>(i, word). dict_set (KStr word) i) ps d)
        = dict_keys d \<union> KStr ` snd ` set ps" for ps :: "(nat \<times> token) list" and d
    by (induction ps arbitrary: d) (auto simp: dict_keys_dict_set)
  from this [of "enumerate 0 ws" "[]"] show ?thesis
    by (simp add: build_word_to_id_def dict_keys_simps flip: set_map)
qed

lemma build_word_to_id_distinct:
  assumes "distinct ws"
  shows "build_word_to_id ws = map (\<lambda>(i, word). (KStr word, i)) (enumerate 0 ws)"
proof -
  let ?kvs = "map (\<lambda>(i, word). (KStr word, i)) (enumerate 0 ws)"
  have keys: "map fst ?kvs = map KStr ws"
    by (simp add: comp_def case_prod_unfold flip: map_map [of KStr snd, unfolded comp_def])
  have "distinct (map fst ?kvs)"
    unfolding keys using assms by (simp add: distinct_map inj_on_def)
  then have "fold (\<lambda>p. dict_set (fst p) (snd p)) ?kvs [] = [] @ ?kvs"
    by (rule fold_dict_set_fresh) (simp add: dict_keys_simps)
  then show ?thesis
    by (simp add: build_word_to_id_def fold_map comp_def case_prod_unfold)
qed

lemma word_to_id_lookup:
  assumes "distinct ws"
  shows "map_of (build_word_to_id ws) (KStr w) = Some i \<longleftrightarrow> i < length ws \<and> ws ! i = w"
proof -
  let ?kvs = "map (\<lambda>(i, word). (KStr word, i)) (enumerate 0 ws)"
  have keys: "map fst ?kvs = map KStr ws"
    by (simp add: comp_def case_prod_unfold flip: map_map [of KStr snd, unfolded comp_def])
  have d: "distinct (map fst ?kvs)"
    unfolding keys using assms by (simp add: distinct_map inj_on_def)
  have "map_of ?kvs (KStr w) = Some i \<longleftrightarrow> (KStr w, i) \<in> set ?kvs"
    using d by (rule map_of_eq_Some_iff)
  also have "\<dots> \<longleftrightarrow> (i, w) \<in> set (enumerate 0 ws)"
    by force
  also have "\<dots> \<longleftrightarrow> i < length ws \<and> ws ! i = w"
    by (simp add: in_set_enumerate_eq)
  finally show ?thesis by (simp add: build_word_to_id_distinct [OF assms])
qed

lemma word_to_id_bij:
  assumes "distinct ws"
  shows "bij_betw (\<lambda>w. the (map_of (build_word_to_id ws) (KStr w))) (set ws) {..<length ws}"
proof -
  let ?f = "\<lambda>w. the (map_of (build_word_to_id ws) (KStr w))"
  have at: "?f (ws ! i) = i" if "i < length ws" for i
  proof -
    have "map_of (build_word_to_id ws) (KStr (ws ! i)) = Some i"
      using word_to_id_lookup [OF assms, of "ws ! i" i] that by simp
    then show ?thesis by simp
  qed
  show ?thesis
  proof (rule bij_betw_byWitness [where f' = "\<lambda>i. ws ! i"])
    show "\<forall>w \<in> set ws. ws ! ?f w = w"
      by (auto simp: in_set_conv_nth at)
    show "\<forall>i \<in> {..<length ws}. ?f (ws ! i) = i"
      by (simp add: at)
    show "?f ` set ws \<subseteq> {..<length ws}"
      by (auto simp: in_set_conv_nth at)
    show "(\<lambda>i. ws ! i) ` {..<length ws} \<subseteq> set ws"
      by auto
  qed
qed

lemma most_common_all: "most_common n wc = take n (most_common (length wc) wc)"
  by (simp add: most_common_def)

lemma most_common_mset: "mset (most_common (length wc) wc) = mset wc"
  by (simp add: most_common_def)

lemma most_common_sorted: "sorted_wrt (\<lambda>p q. snd q \<le> snd p) (most_common (length wc) wc)"
proof -
  have "sorted (map (\<lambda>p. - snd p) (sort_key (\<lambda>p. - snd p) wc))"
    by (rule sorted_sort_key)
  then show ?thesis by (simp add: most_common_def sorted_map)
qed

lemma most_common_stable:
  "filter (\<lambda>p. snd p = c) (most_common (length wc) wc) = filter (\<lambda>p. snd p = c) wc"
proof -
  have "filter (\<lambda>p. - snd p = - c) (sort_key (\<lambda>p. - snd p) wc) = filter (\<lambda>p. - snd p = - c) wc"
    by (rule sort_key_stable)
  then show ?thesis by (simp add: most_common_def)
qed

lemma build_words_distinct:
  assumes "distinct (map fst wc)"
  shows "distinct (build_words n mn wc)"
proof -
  have "mset (map fst (sort_key (\<lambda>p. - snd p) wc)) = mset (map fst wc)" by simp
  then have "distinct (map fst (sort_key (\<lambda>p. - snd p) wc))"
    using assms mset_eq_imp_distinct_iff by blast
  then have "distinct (map fst (take n (sort_key (\<lambda>p. - snd p) wc)))"
    by (simp add: take_map [symmetric] distinct_take)
  then show ?thesis
    unfolding build_words_def most_common_def by (rule distinct_map_filter)
qed

lemma build_words_length: "length (build_words n mn wc) \<le> n"
proof -
  have "length (build_words n mn wc) \<le> length (most_common n wc)"
    by (simp add: build_words_def)
  also have "\<dots> \<le> n" by (simp add: most_common_def)
  finally show ?thesis .
qed

text \<open>
  Claim C7. For every word-count dictionary (an association list with distinct keys,
  in the order of first encounter), the vocabulary is made of the first \<open>vocab_size\<close>
  entries of the dictionary arranged by descending count, entries of equal count
  staying in their order of first encounter, from which the entries whose count is
  below \<open>min_occurrances\<close> are dropped. It has no duplicates and at most \<open>vocab_size\<close>
  words, and the id dictionary maps a word to \<open>i\<close> exactly when the word is at
  position \<open>i\<close> of the vocabulary: a bijection onto the positions.
\<close>

theorem vocabulary_selection:
  assumes "distinct (map fst wc)"
  shows "build_words n mn wc
           = map fst (filter (\<lambda>p. mn \<le> snd p) (take n (most_common (length wc) wc)))
       \<and> mset (most_common (length wc) wc) = mset wc
       \<and> sorted_wrt (\<lambda>p q. snd q \<le> snd p) (most_common (length wc) wc)
       \<and> filter (\<lambda>p. snd p = c) (most_common (length wc) wc) = filter (\<lambda>p. snd p = c) wc
       \<and> distinct (build_words n mn wc)
       \<and> length (build_words n mn wc) \<le> n
       \<and> (map_of (build_word_to_id (build_words n mn wc)) (KStr w) = Some i
            \<longleftrightarrow> i < length (build_words n mn wc) \<and> build_words n mn wc ! i = w)
       \<and> bij_betw (\<lambda>w. the (map_of (build_word_to_id (build_words n mn wc)) (KStr w)))
            (set (build_words n mn wc)) {..<length (build_words n mn wc)}"
  using most_common_all [of n wc] most_common_mset [of wc] most_common_sorted [of wc]
    most_common_stable [of c wc] build_words_distinct [OF assms, of n mn] build_words_length [of n mn wc]
    word_to_id_lookup [OF build_words_distinct [OF assms, of n mn], of w i]
    word_to_id_bij [OF build_words_distinct [OF assms, of n mn]]
  by (simp add: build_words_def)

theorem vocabulary_selection_witness:
  "distinct (map fst [(''a'', 5 :: int), (''b'', 3), (''c'', 1)])
   \<and> build_words 2 1 [(''a'', 5), (''b'', 3), (''c'', 1)] = [''a'', ''b'']
   \<and> build_words 2 4 [(''a'', 5), (''b'', 3), (''c'', 1)] = [''a'']
   \<and> map_of (build_word_to_id (build_words 2 1 [(''a'', 5), (''b'', 3), (''c'', 1)])) (KStr ''b'') = Some 1"
proof -
  have d: "distinct (map fst [(''a'', 5 :: int), (''b'', 3), (''c'', 1)])" by simp
  have w: "build_words 2 1 [(''a'', 5), (''b'', 3), (''c'', 1)] = [''a'', ''b'']"
    by (simp add: build_words_def most_common_def)
  have w4: "build_words 2 4 [(''a'', 5), (''b'', 3), (''c'', 1)] = [''a'']"
    by (simp add: build_words_def most_common_def)
  have "map_of (build_word_to_id (build_words 2 1 [(''a'', 5), (''b'', 3), (''c'', 1)])) (KStr ''b'')
          = Some 1
        \<longleftrightarrow> 1 < length (build_words 2 1 [(''a'', 5), (''b'', 3), (''c'', 1)])
            \<and> build_words 2 1 [(''a'', 5), (''b'', 3), (''c'', 1)] ! 1 = ''b''"
    using vocabulary_selection [OF d, of 2 1 0 "''b''" 1] by blast
  then have "map_of (build_word_to_id (build_words 2 1 [(''a'', 5), (''b'', 3), (''c'', 1)]))
               (KStr ''b'') = Some 1"
    by (simp add: w)
  then show ?thesis
    using d w w4 by simp
qed

text \<open>Equal counts keep the order of first encounter.\<close>

lemma build_words_ties:
  "build_words 2 1 [(''a'', 1), (''b'', 3), (''c'', 3)] = [''b'', ''c'']"
  by (simp add: build_words_def most_common_def)

section \<open>The assembly of the matrix\<close>

lemma dict_contains_iff: "dict_contains d k \<longleftrightarrow> k \<in> dict_keys d"
  by (simp add: dict_contains_def dict_keys_def map_of_eq_None_iff)

lemma dict_get_missing: "k \<notin> dict_keys d \<Longrightarrow> dict_get d k = Inl KeyError"
proof -
  assume "k \<notin> dict_keys d"
  then have "map_of d k = None" by (simp add: dict_keys_def map_of_eq_None_iff)
  then show ?thesis by (simp add: dict_get_def)
qed

lemma dict_get_present: "k \<in> dict_keys d \<Longrightarrow> \<exists>v. dict_get d k = Inr v"
proof -
  assume "k \<in> dict_keys d"
  then have "map_of d k \<noteq> None" by (simp add: dict_keys_def map_of_eq_None_iff)
  then obtain v where "map_of d k = Some v" by blast
  then show ?thesis by (simp add: dict_get_def)
qed


lemma KStr_in_keys: "KStr a \<in> dict_keys (build_word_to_id ws) \<longleftrightarrow> a \<in> set ws"
  unfolding build_word_to_id_keys by blast

lemma KTuple_not_in_keys: "KTuple a b \<notin> dict_keys (build_word_to_id ws)"
  unfolding build_word_to_id_keys by blast

lemma build_matrix_in:
  assumes "a \<in> set ws" and "b \<in> set ws"
  shows "build_matrix (build_word_to_id ws) (((a, b), cnt) # rest) acc = Inl KeyError"
proof -
  have tuple: "dict_get (build_word_to_id ws) (KTuple a b) = Inl KeyError"
    using KTuple_not_in_keys by (rule dict_get_missing)
  have ca: "dict_contains (build_word_to_id ws) (KStr a)"
    and cb: "dict_contains (build_word_to_id ws) (KStr b)"
    using assms by (simp_all add: dict_contains_iff KStr_in_keys)
  obtain v where v: "dict_get (build_word_to_id ws) (KStr a) = Inr v"
    using dict_get_present [of "KStr a" "build_word_to_id ws"] assms(1)
    by (auto simp: KStr_in_keys)
  show ?thesis
    by (simp only: build_matrix.simps fst_conv snd_conv ca cb v tuple simp_thms if_True
        sum.case)
qed

lemma build_matrix_out:
  assumes "\<not> (a \<in> set ws \<and> b \<in> set ws)"
  shows "build_matrix (build_word_to_id ws) (((a, b), cnt) # rest) acc
         = build_matrix (build_word_to_id ws) rest acc"
proof -
  have "\<not> (dict_contains (build_word_to_id ws) (KStr a)
            \<and> dict_contains (build_word_to_id ws) (KStr b))"
    using assms by (simp add: dict_contains_iff KStr_in_keys)
  then show ?thesis
    by (simp only: build_matrix.simps fst_conv snd_conv if_False)
qed


lemma build_matrix_outcome:
  "build_matrix (build_word_to_id ws) cc acc
   = (if list_ex (in_vocabulary ws) cc then Inl KeyError else Inr acc)"
proof (induction cc)
  case Nil
  show ?case by simp
next
  case (Cons entry cc)
  obtain a b cnt where entry: "entry = ((a, b), cnt)" by (cases entry) auto
  show ?case
  proof (cases "a \<in> set ws \<and> b \<in> set ws")
    case True
    then have "build_matrix (build_word_to_id ws) (entry # cc) acc = Inl KeyError"
      unfolding entry by (simp only: build_matrix_in)
    moreover have "list_ex (in_vocabulary ws) (entry # cc)"
      using True by (simp add: entry in_vocabulary_def)
    ultimately show ?thesis by (simp only: if_True)
  next
    case False
    then have "build_matrix (build_word_to_id ws) (entry # cc) acc
               = build_matrix (build_word_to_id ws) cc acc"
      unfolding entry by (rule build_matrix_out)
    moreover have "list_ex (in_vocabulary ws) (entry # cc) = list_ex (in_vocabulary ws) cc"
      using False by (auto simp: entry in_vocabulary_def)
    ultimately show ?thesis using Cons.IH by (simp only:)
  qed
qed


lemma fit_outcome:
  assumes "scan_corpus (left_context self) (right_context self) corpus = (word_counts, cc)"
    and "cc \<noteq> []"
  shows "fit self corpus =
     (if list_ex (in_vocabulary (build_words (vocab_size self) (min_occurrances self) word_counts)) cc
      then (Some KeyError,
            self\<lparr>words := Some (build_words (vocab_size self) (min_occurrances self) word_counts),
                 word_to_id := Some (build_word_to_id
                    (build_words (vocab_size self) (min_occurrances self) word_counts))\<rparr>)
      else (None,
            self\<lparr>words := Some (build_words (vocab_size self) (min_occurrances self) word_counts),
                 word_to_id := Some (build_word_to_id
                    (build_words (vocab_size self) (min_occurrances self) word_counts)),
                 coocurrence_matrix := Some []\<rparr>))"
proof -
  let ?ws = "build_words (vocab_size self) (min_occurrances self) word_counts"
  have "fit self corpus =
     (case build_matrix (build_word_to_id ?ws) cc [] of
        Inl e \<Rightarrow> (Some e, self\<lparr>words := Some ?ws, word_to_id := Some (build_word_to_id ?ws)\<rparr>)
      | Inr m \<Rightarrow> (None, self\<lparr>words := Some ?ws, word_to_id := Some (build_word_to_id ?ws),
                              coocurrence_matrix := Some m\<rparr>))"
    using assms(2) by (simp add: fit_def assms(1) Let_def del: build_matrix.simps)
  then show ?thesis
    by (simp only: build_matrix_outcome if_distrib [of "case_sum _ _"] sum.case)
qed

text \<open>The vocabulary that \<^verbatim>\<open>fit\<close> leaves in the object, also when it raises afterwards.\<close>

lemma fit_vocabulary:
  assumes "snd (scan_corpus (left_context self) (right_context self) corpus) \<noteq> []"
  shows "words (snd (fit self corpus))
           = Some (build_words (vocab_size self) (min_occurrances self)
                     (fst (scan_corpus (left_context self) (right_context self) corpus)))
       \<and> word_to_id (snd (fit self corpus))
           = Some (build_word_to_id (build_words (vocab_size self) (min_occurrances self)
                     (fst (scan_corpus (left_context self) (right_context self) corpus))))"
proof -
  obtain wc cc where s: "scan_corpus (left_context self) (right_context self) corpus = (wc, cc)"
    by (cases "scan_corpus (left_context self) (right_context self) corpus")
  with assms have ne: "cc \<noteq> []" by simp
  show ?thesis unfolding fit_outcome [OF s ne] s by simp
qed

lemma scan_ab:
  "scan_corpus 1 1 [[''a'', ''b'']]
   = ([(''a'', 1), (''b'', 1)], [((''a'', ''b''), 1), ((''b'', ''a''), 1)])"
  by (simp add: scan_corpus_def scan_region_def counter_update_def context_windows_def
      window_def py_slice_def add_triple_def add_context_def)

lemma words_ab: "build_words 100000 1 [(''a'', 1), (''b'', 1)] = [''a'', ''b'']"
  by (simp add: build_words_def most_common_def)

lemma words_ab_min2: "build_words 100000 2 [(''a'', 1), (''b'', 1)] = []"
  by (simp add: build_words_def most_common_def)

lemma ids_ab: "build_word_to_id [''a'', ''b''] = [(KStr ''a'', 0), (KStr ''b'', 1)]"
  by (simp add: build_word_to_id_def)

text \<open>
  Claim C1. Every entry of the co-occurrence dictionary whose two tokens are in the
  vocabulary should reach the matrix under the pair of their ids. In the code the first
  such entry raises \<^verbatim>\<open>KeyError\<close>: the second subscript of the key expression is the
  pair of tokens, which is never a key of the id dictionary. For the corpus
  \<^verbatim>\<open>[["a", "b"]]\<close> and the default configuration \<^verbatim>\<open>fit\<close> raises, after it has
  assigned the word list and the id dictionary, and the matrix stays unassigned.
\<close>

theorem fit_KeyError_example:
  "fit example_model [[''a'', ''b'']] =
     (Some KeyError,
      example_model\<lparr>words := Some [''a'', ''b''],
                    word_to_id := Some [(KStr ''a'', 0), (KStr ''b'', 1)]\<rparr>)"
proof -
  have s: "scan_corpus (left_context example_model) (right_context example_model) [[''a'', ''b'']]
           = ([(''a'', 1), (''b'', 1)], [((''a'', ''b''), 1), ((''b'', ''a''), 1)])"
    by (simp add: example_model_def scan_ab)
  have w: "build_words (vocab_size example_model) (min_occurrances example_model)
             [(''a'', 1), (''b'', 1)] = [''a'', ''b'']"
    by (simp add: example_model_def words_ab)
  have ne: "[((''a'', ''b''), 1 :: real), ((''b'', ''a''), 1)] \<noteq> []" by simp
  show ?thesis
    unfolding fit_outcome [OF s ne] w ids_ab by (simp add: in_vocabulary_def)
qed

text \<open>
  The other half of the claim holds: when no entry has both tokens in the vocabulary,
  every entry is dropped and \<^verbatim>\<open>fit\<close> returns, with an empty matrix.
\<close>

lemma fit_all_dropped_example:
  "fit (example_model\<lparr>min_occurrances := 2\<rparr>) [[''a'', ''b'']] =
     (None,
      example_model\<lparr>min_occurrances := 2, words := Some [], word_to_id := Some [],
                    coocurrence_matrix := Some []\<rparr>)"
proof -
  let ?m = "example_model\<lparr>min_occurrances := 2\<rparr>"
  have s: "scan_corpus (left_context ?m) (right_context ?m) [[''a'', ''b'']]
           = ([(''a'', 1), (''b'', 1)], [((''a'', ''b''), 1), ((''b'', ''a''), 1)])"
    by (simp add: example_model_def scan_ab)
  have w: "build_words (vocab_size ?m) (min_occurrances ?m) [(''a'', 1), (''b'', 1)] = []"
    by (simp add: example_model_def words_ab_min2)
  have i: "build_word_to_id [] = []" by (simp add: build_word_to_id_def)
  have ne: "[((''a'', ''b''), 1 :: real), ((''b'', ''a''), 1)] \<noteq> []" by simp
  show ?thesis
    unfolding fit_outcome [OF s ne] w i by (simp add: in_vocabulary_def)
qed

section \<open>Properties of the weighted loss\<close>

lemma tpow_two: "tpow (Fin y) 2 = Fin (y\<^sup>2)"
proof -
  consider "0 < y" | "y = 0" | "y < 0" by linarith
  then show ?thesis
  proof cases
    case 1
    then show ?thesis by (simp add: powr_numeral)
  next
    case 2
    then show ?thesis by simp
  next
    case 3
    then have "\<bar>y\<bar> powr 2 = y\<^sup>2" by (simp add: powr_numeral)
    with 3 show ?thesis by (simp add: is_integer_def)
  qed
qed

lemma weight_factor_pos:
  assumes "0 < xm" and "0 < x"
  shows "weight_factor xm a (Fin x) = Fin (min 1 ((x / xm) powr a))"
proof -
  have "tpow (tdiv (Fin x) xm) a = Fin ((x / xm) powr a)"
    using assms by simp
  then show ?thesis by (simp add: weight_factor_def min_def)
qed

lemma weight_factor_saturated:
  assumes "0 < xm" and "0 \<le> a"
  shows "weight_factor xm a (Fin (10 * xm)) = Fin 1"
proof -
  have "1 \<le> (10::real) powr a" using assms(2) by (simp add: ge_one_powr_ge_zero)
  then show ?thesis using assms(1) by (simp add: weight_factor_pos)
qed

lemma single_loss_pos:
  assumes "0 < x_max self" and "0 < x"
  shows "single_loss self (f, c, Fin x)
         = Fin (min 1 ((x / x_max self) powr alpha self)
                * (embedding_product (focal_embeddings self f) (context_embeddings self c)
                   + focal_biases self f + context_biases self c + ln x)\<^sup>2)"
  using assms by (simp add: single_loss_def weight_factor_pos tpow_two del: tpow.simps)

lemma foldl_tadd_Fin: "foldl tadd (Fin a) (map Fin xs) = Fin (a + sum_list xs)"
  by (induction xs arbitrary: a) (simp_all add: add.assoc)

lemma tadd_not_finite:
  "\<not> is_finite a \<Longrightarrow> \<not> is_finite (tadd a b)"
  "\<not> is_finite b \<Longrightarrow> \<not> is_finite (tadd a b)"
  by (cases a; cases b; simp)+

lemma foldl_tadd_not_finite_acc: "\<not> is_finite a \<Longrightarrow> \<not> is_finite (foldl tadd a xs)"
  by (induction xs arbitrary: a) (simp_all add: tadd_not_finite)

lemma foldl_tadd_not_finite:
  "x \<in> set xs \<Longrightarrow> \<not> is_finite x \<Longrightarrow> \<not> is_finite (foldl tadd a xs)"
proof (induction xs arbitrary: a)
  case Nil
  then show ?case by simp
next
  case (Cons y ys)
  show ?case
  proof (cases "x = y")
    case True
    with Cons.prems show ?thesis by (simp add: foldl_tadd_not_finite_acc tadd_not_finite)
  next
    case False
    with Cons show ?thesis by simp
  qed
qed

lemma tmul_PInf_not_finite: "\<not> is_finite (tmul w PInf)"
  by (cases w) (simp_all add: inf_signed_def)

lemma tmul_NaN: "tmul w NaN = NaN"
  by (cases w) simp_all

lemma single_loss_nonpos:
  assumes "x \<le> 0"
  shows "\<not> is_finite (single_loss self (f, c, Fin x))"
proof (cases "x = 0")
  case True
  then show ?thesis
    by (simp add: single_loss_def is_integer_def tmul_PInf_not_finite)
next
  case False
  with assms have "x < 0" by simp
  then show ?thesis
    by (simp add: single_loss_def tmul_NaN)
qed

lemma forward_value:
  assumes "length focal_input = length counts" and "length context_input = length counts"
    and "\<forall>i \<in> set focal_input. i < vocab_size self"
    and "\<forall>i \<in> set context_input. i < vocab_size self"
  shows "forward self focal_input context_input counts
         = Inr (foldl tadd (Fin 0)
                  (map (single_loss self) (zip focal_input (zip context_input counts))))"
  using assms by (auto simp: forward_def list_ex_iff)

text \<open>
  Claim C8. For batches of equal length, ids below \<open>vocab_size\<close>, a positive cutoff
  \<open>x_max\<close> and strictly positive counts, \<^verbatim>\<open>forward\<close> returns the sum over the
  batch of \<open>min 1 ((count / x_max) powr alpha)\<close> times the square of the embedding
  product plus both biases plus \<open>ln count\<close>. For a count of \<open>10 * x_max\<close> the weight
  factor is exactly 1 when \<open>alpha\<close> is not negative.
\<close>

theorem forward_weighted_sum:
  assumes "0 < x_max self"
    and "length focal_input = length counts" and "length context_input = length counts"
    and "\<forall>i \<in> set focal_input. i < vocab_size self"
    and "\<forall>i \<in> set context_input. i < vocab_size self"
    and "\<forall>x \<in> set counts. 0 < x"
  shows "forward self focal_input context_input (map Fin counts)
         = Inr (Fin (\<Sum>(f, c, x) \<leftarrow> zip focal_input (zip context_input counts).
                  min 1 ((x / x_max self) powr alpha self)
                  * (embedding_product (focal_embeddings self f) (context_embeddings self c)
                     + focal_biases self f + context_biases self c + ln x)\<^sup>2))
       \<and> (0 \<le> alpha self \<longrightarrow>
            weight_factor (x_max self) (alpha self) (Fin (10 * x_max self)) = Fin 1)"
proof -
  let ?g = "\<lambda>(f, c, x). min 1 ((x / x_max self) powr alpha self)
                  * (embedding_product (focal_embeddings self f) (context_embeddings self c)
                     + focal_biases self f + context_biases self c + ln x)\<^sup>2"
  have z: "zip focal_input (zip context_input (map Fin counts))
           = map (\<lambda>(f, c, x). (f, c, Fin x)) (zip focal_input (zip context_input counts))"
    by (simp add: zip_map2 case_prod_unfold)
  have pos: "0 < x" if "(f, c, x) \<in> set (zip focal_input (zip context_input counts))" for f c x
    using that assms(6) by (auto dest!: set_zip_rightD)
  have h: "map (single_loss self) (zip focal_input (zip context_input (map Fin counts)))
        = map Fin (map ?g (zip focal_input (zip context_input counts)))"
    unfolding z using pos by (auto simp: single_loss_pos [OF assms(1)])
  have "forward self focal_input context_input (map Fin counts)
        = Inr (foldl tadd (Fin 0)
                 (map (single_loss self) (zip focal_input (zip context_input (map Fin counts)))))"
    by (rule forward_value) (use assms in simp_all)
  also have "\<dots> = Inr (foldl tadd (Fin 0)
                        (map Fin (map ?g (zip focal_input (zip context_input counts)))))"
    by (simp only: h)
  also have "\<dots> = Inr (Fin (sum_list (map ?g (zip focal_input (zip context_input counts)))))"
    by (simp only: foldl_tadd_Fin add_0_left)
  finally have "forward self focal_input context_input (map Fin counts)
        = Inr (Fin (sum_list (map ?g (zip focal_input (zip context_input counts)))))" .
  then show ?thesis using weight_factor_saturated [OF assms(1)] by simp
qed

theorem forward_weighted_sum_witness:
  "forward example_model [0, 1] [1, 0] (map Fin [1000, 100])
     = Inr (Fin (1 * (ln 1000)\<^sup>2 + 1 * (ln 100)\<^sup>2))
   \<and> weight_factor (x_max example_model) (alpha example_model) (Fin (10 * x_max example_model)) = Fin 1"
  using forward_weighted_sum [of example_model "[0, 1]" "[1000, 100]" "[1, 0]"]
  by (simp add: example_model_def embedding_product_def ge_one_powr_ge_zero min_def)

text \<open>
  The weight factor at \<open>10 * x_max\<close> is not 1 regardless of \<open>alpha\<close>: with
  \<open>alpha = - 1\<close> and \<open>x_max = 100\<close> the power is one tenth, which is not above 1
  and is left as it is.
\<close>

theorem weight_factor_negative_alpha:
  "weight_factor 100 (- 1) (Fin (10 * 100)) = Fin (1 / 10) \<and>
   weight_factor 100 (- 1) (Fin (10 * 100)) \<noteq> Fin 1"
  by (simp add: weight_factor_def powr_minus_divide)

text \<open>
  Claim C3, as the code has it. \<^verbatim>\<open>forward\<close> does not look at the sign of a count:
  for batches of equal length and ids below \<open>vocab_size\<close>, a batch that holds a zero or
  negative count raises nothing and returns a value, and that value is not finite.
\<close>

theorem forward_no_count_check:
  assumes "length focal_input = length counts" and "length context_input = length counts"
    and "\<forall>i \<in> set focal_input. i < vocab_size self"
    and "\<forall>i \<in> set context_input. i < vocab_size self"
    and "j < length counts" and "counts ! j = Fin x" and "x \<le> 0"
  shows "\<exists>v. forward self focal_input context_input counts = Inr v \<and> \<not> is_finite v"
proof -
  let ?z = "zip focal_input (zip context_input counts)"
  have "?z ! j = (focal_input ! j, context_input ! j, Fin x)"
    using assms(1,2,5,6) by simp
  moreover have "j < length ?z" using assms(1,2,5) by simp
  ultimately have "(focal_input ! j, context_input ! j, Fin x) \<in> set ?z"
    by (metis nth_mem)
  then have "single_loss self (focal_input ! j, context_input ! j, Fin x)
             \<in> single_loss self ` set ?z"
    by (rule imageI)
  then have "single_loss self (focal_input ! j, context_input ! j, Fin x)
             \<in> set (map (single_loss self) ?z)"
    by simp
  then have "\<not> is_finite (foldl tadd (Fin 0) (map (single_loss self) ?z))"
    using single_loss_nonpos [OF assms(7)] by (rule foldl_tadd_not_finite)
  then show ?thesis using forward_value [OF assms(1-4)] by simp
qed

theorem forward_no_count_check_witness:
  "\<exists>v. forward example_model [0, 1] [1, 0] [Fin 5, Fin (- 1)] = Inr v \<and> \<not> is_finite v"
  using forward_no_count_check [of "[0, 1]" "[Fin 5, Fin (- 1)]" "[1, 0]" example_model 1 "- 1"]
  by (simp add: example_model_def)

text \<open>
  With the default cutoff and exponent, a count of 0 and a count of -1 both give
  not-a-number, returned as the loss.
\<close>

theorem forward_nonpositive_count:
  "forward example_model [0] [0] [Fin 0] = Inr NaN \<and>
   forward example_model [0] [0] [Fin (- 1)] = Inr NaN"
  by (simp add: forward_def example_model_def single_loss_def weight_factor_def
      embedding_product_def inf_signed_def is_integer_def)

end
